theory Spec2Isabelle
  imports Main "HOL-Library.Char_ord" "HOL-Library.List_Lexorder"
begin

text \<open>
  The workflow engine of the repository (\<^verbatim>\<open>WorkflowEngine\<close>): the variable store, the
  template resolver, the context sanitizer, the dispatch on the node type, the output
  extraction and the traversal of the graph, as functions on the state of the engine. An
  exception is a value, the AI service and the built-ins of the host are parameters, and
  the recursion over the graph counts its depth.
\<close>

section \<open>JavaScript values\<close>

text \<open>
  The engine stores and forwards values of type \<^verbatim>\<open>any\<close>: what \<^verbatim>\<open>JSON.parse\<close> yields, the
  strings of the AI service, the objects the trigger builds. An object is its list of
  own properties in the order \<^verbatim>\<open>Object.keys\<close> enumerates them; every such object has the
  standard prototype. Numbers are the integer-valued ones; how \<^verbatim>\<open>String\<close> prints a number is
  left to the host. A \<^typ>\<open>char\<close> stands for the
  UTF-16 code unit of the same number, so the strings of the model are those over the
  code units below 256.
\<close>

datatype jsval =
    JUndefined
  | JNull
  | JBool bool
  | JNum int
  | JStr string
  | JArr "jsval list"
  | JObj "(string \<times> jsval) list"

text \<open>\<^verbatim>\<open>typeof v === 'object'\<close> (true of \<^verbatim>\<open>null\<close> and of arrays).\<close>

fun typeof_object :: "jsval \<Rightarrow> bool" where
  "typeof_object JNull = True"
| "typeof_object (JArr _) = True"
| "typeof_object (JObj _) = True"
| "typeof_object _ = False"

text \<open>The decimal numeral of an integer, for the host of the examples: \<^verbatim>\<open>String\<close> prints
  the integers below \<open>10^21\<close> so.\<close>

definition digit_char :: "nat \<Rightarrow> char" where
  "digit_char d = ''0123456789'' ! d"

function show_nat :: "nat \<Rightarrow> string" where
  "show_nat n = (if n < 10 then [digit_char n] else show_nat (n div 10) @ [digit_char (n mod 10)])"
  by pat_completeness auto
termination
  by (relation "measure id") auto

definition show_int :: "int \<Rightarrow> string" where
  "show_int i = (if i < 0 then CHR ''-'' # show_nat (nat (- i)) else show_nat (nat i))"

fun intersperse :: "'a list \<Rightarrow> 'a list list \<Rightarrow> 'a list" where
  "intersperse sep [] = []"
| "intersperse sep [x] = x"
| "intersperse sep (x # y # ys) = x @ sep @ intersperse sep (y # ys)"

text \<open>
  \<^verbatim>\<open>String(v)\<close>, given how the host prints a number. An array joins its elements with a
  comma, \<^verbatim>\<open>null\<close> and \<^verbatim>\<open>undefined\<close> elements giving the empty string.
\<close>

fun js_String :: "(int \<Rightarrow> string) \<Rightarrow> jsval \<Rightarrow> string" where
  "js_String num JUndefined = ''undefined''"
| "js_String num JNull = ''null''"
| "js_String num (JBool b) = (if b then ''true'' else ''false'')"
| "js_String num (JNum n) = num n"
| "js_String num (JStr s) = s"
| "js_String num (JArr xs) =
     intersperse '','' (map (\<lambda>x. if x = JUndefined \<or> x = JNull then [] else js_String num x) xs)"
| "js_String num (JObj _) = ''[object Object]''"

section \<open>Strings\<close>

text \<open>The characters \<^verbatim>\<open>\s\<close> matches and \<^verbatim>\<open>trim\<close> strips, among the code units below 256.\<close>

definition is_space :: "char \<Rightarrow> bool" where
  "is_space c = (c \<in> set [CHR 0x09, CHR 0x0A, CHR 0x0B, CHR 0x0C, CHR 0x0D, CHR 0x20, CHR 0xA0])"

text \<open>The class \<^verbatim>\<open>[a-zA-Z0-9_\-]\<close>.\<close>

definition is_name_char :: "char \<Rightarrow> bool" where
  "is_name_char c =
     (c \<in> set ''abcdefghijklmnopqrstuvwxyzABCDEFGHIJKLMNOPQRSTUVWXYZ0123456789_-'')"

definition is_digit :: "char \<Rightarrow> bool" where
  "is_digit c = (c \<in> set ''0123456789'')"

definition trim :: "string \<Rightarrow> string" where
  "trim s = rev (dropWhile is_space (rev (dropWhile is_space s)))"

text \<open>A text between apostrophes, as the messages of the engine show names.\<close>

definition quoted :: "string \<Rightarrow> string" where
  "quoted s = [CHR 0x27] @ s @ [CHR 0x27]"

definition startsWith :: "string \<Rightarrow> string \<Rightarrow> bool" where
  "startsWith s p = (take (length p) s = p)"

definition endsWith :: "string \<Rightarrow> string \<Rightarrow> bool" where
  "endsWith s p = (length p \<le> length s \<and> drop (length s - length p) s = p)"

section \<open>Objects\<close>

text \<open>
  Own property keys are enumerated with the array indices first, in ascending numeric
  order, then the other keys in the order of their creation. An array index is the
  canonical decimal numeral of an integer below \<open>2^32 - 1\<close>, which has ten digits at most.
\<close>

definition digit_value :: "char \<Rightarrow> nat" where
  "digit_value c = of_char c - 48"

definition numeral_value :: "string \<Rightarrow> nat" where
  "numeral_value s = foldl (\<lambda>a c. 10 * a + digit_value c) 0 s"

definition is_array_index :: "string \<Rightarrow> bool" where
  "is_array_index s =
     (s \<noteq> [] \<and> list_all is_digit s \<and> (s = ''0'' \<or> hd s \<noteq> CHR ''0'') \<and>
      length s \<le> 10 \<and> numeral_value s < 4294967295)"

definition hasOwn :: "(string \<times> jsval) list \<Rightarrow> string \<Rightarrow> bool" where
  "hasOwn ps k = (map_of ps k \<noteq> None)"

definition getOwn :: "(string \<times> jsval) list \<Rightarrow> string \<Rightarrow> jsval" where
  "getOwn ps k = (case map_of ps k of None \<Rightarrow> JUndefined | Some v \<Rightarrow> v)"

fun updateOwn :: "string \<Rightarrow> jsval \<Rightarrow> (string \<times> jsval) list \<Rightarrow> (string \<times> jsval) list" where
  "updateOwn k v [] = []"
| "updateOwn k v ((k', v') # ps) =
     (if k' = k then (k, v) # ps else (k', v') # updateOwn k v ps)"

fun insertOwn :: "string \<Rightarrow> jsval \<Rightarrow> (string \<times> jsval) list \<Rightarrow> (string \<times> jsval) list" where
  "insertOwn k v [] = [(k, v)]"
| "insertOwn k v ((k', v') # ps) =
     (if is_array_index k \<and> (\<not> is_array_index k' \<or> numeral_value k < numeral_value k')
      then (k, v) # (k', v') # ps
      else (k', v') # insertOwn k v ps)"

definition defineOwn :: "string \<Rightarrow> jsval \<Rightarrow> (string \<times> jsval) list \<Rightarrow> (string \<times> jsval) list" where
  "defineOwn k v ps = (if hasOwn ps k then updateOwn k v ps else insertOwn k v ps)"

text \<open>
  An object the engine assigns to by computed key, \<^verbatim>\<open>obj[key] = value\<close>: its own
  properties and its prototype. The prototype matters for two keys. An assignment to
  \<^verbatim>\<open>__proto__\<close> that finds no own property of that name on the object or on an installed
  prototype reaches the accessor of \<^verbatim>\<open>Object.prototype\<close>, which installs an object or
  \<^verbatim>\<open>null\<close> as the prototype and ignores any other value. And \<^verbatim>\<open>obj.hasOwnProperty\<close> is
  the built-in method only when no own property and no installed prototype shadows it.
\<close>

datatype jsproto = ObjectPrototype | NullPrototype | ValuePrototype jsval

record jsobject =
  own :: "(string \<times> jsval) list"
  proto :: jsproto

definition emptyObject :: jsobject where
  "emptyObject = \<lparr> own = [], proto = ObjectPrototype \<rparr>"

text \<open>Whether the prototype chain holds a data property of the name \<^verbatim>\<open>__proto__\<close> or
  ends before \<^verbatim>\<open>Object.prototype\<close>, in which case the assignment creates an own property.\<close>

fun protoSetterHidden :: "jsproto \<Rightarrow> bool" where
  "protoSetterHidden ObjectPrototype = False"
| "protoSetterHidden NullPrototype = True"
| "protoSetterHidden (ValuePrototype (JObj ps)) = hasOwn ps ''__proto__''"
| "protoSetterHidden (ValuePrototype _) = False"

fun protoSetter :: "jsval \<Rightarrow> jsobject \<Rightarrow> jsobject" where
  "protoSetter (JObj ps) ob = ob\<lparr> proto := ValuePrototype (JObj ps) \<rparr>"
| "protoSetter (JArr xs) ob = ob\<lparr> proto := ValuePrototype (JArr xs) \<rparr>"
| "protoSetter JNull ob = ob\<lparr> proto := NullPrototype \<rparr>"
| "protoSetter _ ob = ob"

text \<open>\<^verbatim>\<open>ob[k] = v\<close>\<close>

definition assign :: "string \<Rightarrow> jsval \<Rightarrow> jsobject \<Rightarrow> jsobject" where
  "assign k v ob =
     (if k = ''__proto__'' \<and> \<not> hasOwn (own ob) k \<and> \<not> protoSetterHidden (proto ob)
      then protoSetter v ob
      else ob\<lparr> own := defineOwn k v (own ob) \<rparr>)"

text \<open>Whether \<^verbatim>\<open>ob.hasOwnProperty\<close> evaluates to the built-in method. A stored value is
  never a function, so a shadowing property makes the call a \<^verbatim>\<open>TypeError\<close>.\<close>

fun protoHasMethod :: "jsproto \<Rightarrow> bool" where
  "protoHasMethod ObjectPrototype = True"
| "protoHasMethod NullPrototype = False"
| "protoHasMethod (ValuePrototype (JObj ps)) = (\<not> hasOwn ps ''hasOwnProperty'')"
| "protoHasMethod (ValuePrototype _) = True"

definition hasOwnProperty_callable :: "jsobject \<Rightarrow> bool" where
  "hasOwnProperty_callable ob = (\<not> hasOwn (own ob) ''hasOwnProperty'' \<and> protoHasMethod (proto ob))"

text \<open>Own properties of a value that is an object: an array owns its indices and
  \<^verbatim>\<open>length\<close>.\<close>

fun valueHasOwn :: "jsval \<Rightarrow> string \<Rightarrow> bool" where
  "valueHasOwn (JObj ps) k = hasOwn ps k"
| "valueHasOwn (JArr xs) k = (k = ''length'' \<or> (is_array_index k \<and> numeral_value k < length xs))"
| "valueHasOwn _ k = False"

fun valueGet :: "jsval \<Rightarrow> string \<Rightarrow> jsval" where
  "valueGet (JObj ps) k = getOwn ps k"
| "valueGet (JArr xs) k =
     (if k = ''length'' then JNum (int (length xs))
      else if is_array_index k \<and> numeral_value k < length xs then xs ! numeral_value k
      else JUndefined)"
| "valueGet _ k = JUndefined"

fun valueMethodCallable :: "jsval \<Rightarrow> bool" where
  "valueMethodCallable (JObj ps) = (\<not> hasOwn ps ''hasOwnProperty'')"
| "valueMethodCallable _ = True"

section \<open>The workflow graph\<close>

datatype node_type = Webhook | AiText | AiImage | Condition | Loop | Api | Variable

text \<open>The statuses \<^verbatim>\<open>idle\<close>, \<^verbatim>\<open>running\<close>, \<^verbatim>\<open>success\<close> and \<^verbatim>\<open>error\<close>.\<close>

datatype node_status = StatusIdle | StatusRunning | StatusSuccess | StatusError

datatype input_type = VariableInput | FileInput

datatype content_type = Json | FormData

record form_field =
  ff_id :: string
  ff_key :: string
  ff_value :: string

text \<open>An input reference as configured (\<^verbatim>\<open>NodeInput\<close>), and as handed to the AI service
  once resolved: the \<^verbatim>\<open>value\<close> field then holds whatever the variable holds.\<close>

record node_input =
  ni_id :: string
  ni_type :: input_type
  ni_value :: string

record resolved_input =
  ri_id :: string
  ri_type :: input_type
  ri_value :: jsval

record output_mapping =
  om_field :: string
  om_variable :: string

text \<open>\<^verbatim>\<open>NodeData\<close>: the fields the engine reads or writes. An optional field is an
  \<^typ>\<open>'a option\<close>; \<^verbatim>\<open>outputValue\<close> is \<^const>\<open>JUndefined\<close> when absent.\<close>

record node_data =
  label :: string
  prompt :: "string option"
  model :: "string option"
  inputImage :: "string option"
  inputImageVariable :: "string option"
  inputs :: "node_input list option"
  outputVariableName :: "string option"
  outputMappings :: "output_mapping list option"
  condition :: "string option"
  apiUrl :: "string option"
  webhookContentType :: "content_type option"
  webhookPayload :: "string option"
  webhookFormData :: "form_field list option"
  outputValue :: jsval
  status :: "node_status option"
  errorMessage :: "string option"

text \<open>A node, without its position on the canvas, which the engine never reads.\<close>

record node =
  node_id :: string
  node_type :: node_type
  node_data :: node_data

record edge =
  edge_id :: string
  source :: string
  target :: string

text \<open>\<^verbatim>\<open>processedNodeData\<close>: the copy of a node's data with the resolved fields written
  over it.\<close>

record processed_data =
  pd_data :: node_data
  pd_prompt :: "string option"
  pd_apiUrl :: "string option"
  pd_inputs :: "resolved_input list option"
  pd_inputImage :: jsval
  pd_model :: "string option"

section \<open>Errors, the host and the engine state\<close>

text \<open>The two kinds of exception the engine meets, each with its \<^verbatim>\<open>message\<close>. The
  message of a \<^verbatim>\<open>TypeError\<close> is worded as V8 words it.\<close>

datatype js_error = Error string | TypeError string

fun message :: "js_error \<Rightarrow> string" where
  "message (Error m) = m"
| "message (TypeError m) = m"

text \<open>
  What the engine calls and does not define. The number each function takes first is
  the number of log lines written so far: it stands for the time of the call, so that
  the clock and the AI service may answer differently at each call.
  \<^item> \<^verbatim>\<open>executeAiNode\<close>: the AI service, which returns a value or rejects with an
    \<^verbatim>\<open>Error\<close> of the given message;
  \<^item> \<^verbatim>\<open>JSON.parse\<close>, \<^const>\<open>None\<close> for a syntax error;
  \<^item> \<^verbatim>\<open>JSON.stringify\<close> with its indentation;
  \<^item> the text \<^verbatim>\<open>String\<close> gives for a number;
  \<^item> \<^verbatim>\<open>Date.now()\<close> and \<^verbatim>\<open>new Date().toLocaleTimeString()\<close>.
  The two sinks \<^verbatim>\<open>setNodes\<close> and \<^verbatim>\<open>setLogs\<close> receive copies of \<^verbatim>\<open>nodes\<close> and \<^verbatim>\<open>logs\<close> and
  return nothing to the engine.
\<close>

record host =
  executeAiNode :: "nat \<Rightarrow> processed_data \<Rightarrow> string \<Rightarrow> string + jsval"
  jsonParse :: "string \<Rightarrow> jsval option"
  jsonStringify :: "nat \<Rightarrow> jsval \<Rightarrow> string"
  numberToString :: "int \<Rightarrow> string"
  dateNow :: "nat \<Rightarrow> int"
  localeTime :: "nat \<Rightarrow> string"

record engine =
  nodes :: "node list"
  edges :: "edge list"
  logs :: "string list"
  variables :: jsobject

text \<open>The outcome of an operation of the engine: it returns, or it throws; either way
  the engine is in the state the operation left.\<close>

datatype 'a outcome = Return 'a engine | Throw js_error engine

fun final :: "'a outcome \<Rightarrow> engine" where
  "final (Return _ st) = st"
| "final (Throw _ st) = st"

definition log :: "host \<Rightarrow> string \<Rightarrow> engine \<Rightarrow> engine" where
  "log h msg st =
     st\<lparr> logs := logs st @ [''['' @ localeTime h (length (logs st)) @ ''] '' @ msg] \<rparr>"

text \<open>\<^verbatim>\<open>updateNodeStatus(id, status, output, error)\<close>; an \<^verbatim>\<open>output\<close> that is not passed is
  \<^const>\<open>JUndefined\<close> and keeps the node's value.\<close>

definition updateNodeStatus ::
  "string \<Rightarrow> node_status \<Rightarrow> jsval \<Rightarrow> string option \<Rightarrow> engine \<Rightarrow> engine" where
  "updateNodeStatus i s output err st =
     st\<lparr> nodes := map (\<lambda>n.
         if node_id n = i
         then n\<lparr> node_data := (node_data n)\<lparr>
                 status := Some s,
                 outputValue := (if output \<noteq> JUndefined then output else outputValue (node_data n)),
                 errorMessage := err \<rparr> \<rparr>
         else n) (nodes st) \<rparr>"

section \<open>The template resolver\<close>

text \<open>
  One match of \<^verbatim>\<open>/\{\{\s*([a-zA-Z0-9_\-]+)\s*\}\}/\<close> at the head of a string: the captured
  name and the text after the match. The three classes (space, name character, closing
  brace) are disjoint, so the greedy match never backtracks.
\<close>

definition matchPlaceholder :: "string \<Rightarrow> (string \<times> string) option" where
  "matchPlaceholder s =
     (if startsWith s ''{{'' then
        (let r1 = dropWhile is_space (drop 2 s);
             name = takeWhile is_name_char r1;
             r3 = dropWhile is_space (dropWhile is_name_char r1)
         in if name \<noteq> [] \<and> startsWith r3 ''}}'' then Some (name, drop 2 r3) else None)
      else None)"

text \<open>The error a lookup throws for a name the store does not hold, with the names
  \<^verbatim>\<open>Object.keys(this.variables)\<close> lists; and the error of a call of what is no function.\<close>

definition variableNotFound :: "string \<Rightarrow> jsobject \<Rightarrow> js_error" where
  "variableNotFound name vars =
     Error (''Variable '' @ quoted name @ '' not found. Available: '' @
            intersperse '', '' (map fst (own vars)))"

definition notAFunction :: "string \<Rightarrow> js_error" where
  "notAFunction what = TypeError (what @ '' is not a function'')"

text \<open>The callback of \<^verbatim>\<open>replace\<close>: the text that stands for the variable, or the error
  thrown.\<close>

definition substitute :: "host \<Rightarrow> jsobject \<Rightarrow> string \<Rightarrow> js_error + string" where
  "substitute h vars varName =
     (if \<not> hasOwnProperty_callable vars then Inl (notAFunction ''this.variables.hasOwnProperty'')
      else if hasOwn (own vars) varName then
        (let val = getOwn (own vars) varName
         in Inr (if typeof_object val then jsonStringify h 0 val else js_String (numberToString h) val))
      else Inl (variableNotFound varName vars))"

lemma matchPlaceholder_shorter:
  "matchPlaceholder s = Some (name, rest) \<Longrightarrow> length rest < length s"
proof -
  assume a: "matchPlaceholder s = Some (name, rest)"
  have d: "length (dropWhile P xs) \<le> length xs" for P and xs :: string
    by (induction xs) auto
  from a have r: "rest = drop 2 (dropWhile is_space (dropWhile is_name_char (dropWhile is_space (drop 2 s))))"
    and s2: "startsWith s ''{{''"
    by (auto simp: matchPlaceholder_def Let_def split: if_splits)
  from s2 have "2 \<le> length s"
    by (cases s; cases "tl s") (auto simp: startsWith_def)
  moreover have "length rest \<le> length (drop 2 s) - 2"
    unfolding r using d[of is_space "dropWhile is_name_char (dropWhile is_space (drop 2 s))"]
      d[of is_name_char "dropWhile is_space (drop 2 s)"] d[of is_space "drop 2 s"]
    by simp
  moreover from a have "startsWith (dropWhile is_space (dropWhile is_name_char (dropWhile is_space (drop 2 s)))) ''}}''"
    by (auto simp: matchPlaceholder_def Let_def split: if_splits)
  ultimately show ?thesis
    by simp
qed

text \<open>\<^verbatim>\<open>text.replace(/.../g, callback)\<close>: the matches from left to right, none overlapping
  another; the first callback that throws ends the replacement.\<close>

function replacePlaceholders :: "(string \<Rightarrow> js_error + string) \<Rightarrow> string \<Rightarrow> js_error + string" where
  "replacePlaceholders f [] = Inr []"
| "replacePlaceholders f (c # cs) =
     (case matchPlaceholder (c # cs) of
        Some (name, rest) \<Rightarrow>
          (case f name of
             Inl e \<Rightarrow> Inl e
           | Inr v \<Rightarrow> (case replacePlaceholders f rest of Inl e \<Rightarrow> Inl e | Inr t \<Rightarrow> Inr (v @ t)))
      | None \<Rightarrow> (case replacePlaceholders f cs of Inl e \<Rightarrow> Inl e | Inr t \<Rightarrow> Inr (c # t)))"
  by pat_completeness auto
termination
  by (relation "measure (\<lambda>(f, s). length s)") (auto dest: matchPlaceholder_shorter)

text \<open>\<^verbatim>\<open>resolveVariables(text)\<close>; the argument is \<^const>\<open>None\<close> for \<^verbatim>\<open>undefined\<close>. The
  three resolvers read \<^verbatim>\<open>this.variables\<close> and change nothing, so they are functions of
  the store: \<^const>\<open>Inl\<close> is the error thrown.\<close>

definition resolveVariables :: "host \<Rightarrow> jsobject \<Rightarrow> string option \<Rightarrow> js_error + string" where
  "resolveVariables h vars text =
     (case text of
        None \<Rightarrow> Inr []
      | Some t \<Rightarrow> if t = [] then Inr [] else replacePlaceholders (substitute h vars) t)"

text \<open>\<^verbatim>\<open>varName.trim().replace(/^\{\{\s*|\s*\}\}$/g, '')\<close>: an opening \<^verbatim>\<open>{{\<close> with the
  spaces after it goes, then a closing \<^verbatim>\<open>}}\<close> with the spaces before it.\<close>

definition stripBraces :: "string \<Rightarrow> string" where
  "stripBraces varName =
     (let t = trim varName;
          u = (if startsWith t ''{{'' then dropWhile is_space (drop 2 t) else t)
      in if endsWith u ''}}'' then rev (dropWhile is_space (rev (take (length u - 2) u))) else u)"

definition resolveVariableValue :: "jsobject \<Rightarrow> string \<Rightarrow> js_error + jsval" where
  "resolveVariableValue vars varName =
     (let stripped = stripBraces varName in
      if \<not> hasOwnProperty_callable vars then Inl (notAFunction ''this.variables.hasOwnProperty'')
      else if hasOwn (own vars) stripped then Inr (getOwn (own vars) stripped)
      else Inl (variableNotFound stripped vars))"

definition unresolved :: "node_input \<Rightarrow> resolved_input" where
  "unresolved i = \<lparr> ri_id = ni_id i, ri_type = ni_type i, ri_value = JStr (ni_value i) \<rparr>"

text \<open>\<^verbatim>\<open>resolveInputs(inputs)\<close>: the \<^verbatim>\<open>map\<close> over the entries, each \<^verbatim>\<open>variable\<close> entry in
  its own \<^verbatim>\<open>try\<close>, whose \<^verbatim>\<open>catch\<close> writes to the log.\<close>

fun resolveEach :: "host \<Rightarrow> node_input list \<Rightarrow> engine \<Rightarrow> resolved_input list outcome" where
  "resolveEach h [] st = Return [] st"
| "resolveEach h (i # is) st =
     (if ni_type i = VariableInput then
        (case resolveVariableValue (variables st) (ni_value i) of
           Inr val \<Rightarrow>
             (case resolveEach h is st of
                Return rs st2 \<Rightarrow> Return ((unresolved i)\<lparr> ri_value := val \<rparr> # rs) st2
              | Throw e st2 \<Rightarrow> Throw e st2)
         | Inl e \<Rightarrow>
             (case resolveEach h is (log h (''Warning: '' @ message e) st) of
                Return rs st2 \<Rightarrow> Return (unresolved i # rs) st2
              | Throw e' st2 \<Rightarrow> Throw e' st2))
      else
        (case resolveEach h is st of
           Return rs st2 \<Rightarrow> Return (unresolved i # rs) st2
         | Throw e st2 \<Rightarrow> Throw e st2))"

definition resolveInputs :: "host \<Rightarrow> node_input list option \<Rightarrow> engine \<Rightarrow> resolved_input list outcome" where
  "resolveInputs h ins st = (case ins of None \<Rightarrow> Return [] st | Some is \<Rightarrow> resolveEach h is st)"

definition truthy :: "string option \<Rightarrow> bool" where
  "truthy s = (s \<noteq> None \<and> s \<noteq> Some [])"

definition imageValue :: "string option \<Rightarrow> jsval" where
  "imageValue img = (case img of None \<Rightarrow> JUndefined | Some s \<Rightarrow> JStr s)"

text \<open>\<^verbatim>\<open>resolveInputImage(nodeData)\<close>: the error of a failed lookup is thrown again as an
  \<^verbatim>\<open>Error\<close> of the same message.\<close>

definition resolveInputImage :: "jsobject \<Rightarrow> node_data \<Rightarrow> js_error + jsval" where
  "resolveInputImage vars nodeData =
     (if truthy (inputImageVariable nodeData)
      then (case resolveVariableValue vars (the (inputImageVariable nodeData)) of
              Inr v \<Rightarrow> Inr v
            | Inl e \<Rightarrow> Inl (Error (message e)))
      else Inr (imageValue (inputImage nodeData)))"

section \<open>The context sanitizer\<close>

text \<open>The replacer \<^verbatim>\<open>JSON.stringify\<close> is given: it is called on every value of the
  structure and changes the strings.\<close>

definition redactField :: "string \<Rightarrow> string" where
  "redactField val =
     (if startsWith val ''data:'' \<and> length val > 500 then ''[Image Data]''
      else if length val > 5000 then take 5000 val @ ''... [Truncated]''
      else val)"

primrec redact :: "jsval \<Rightarrow> jsval" where
  "redact JUndefined = JUndefined"
| "redact JNull = JNull"
| "redact (JBool b) = JBool b"
| "redact (JNum n) = JNum n"
| "redact (JStr s) = JStr (redactField s)"
| "redact (JArr xs) = JArr (map redact xs)"
| "redact (JObj ps) = JObj (map (map_prod id redact) ps)"

text \<open>\<^verbatim>\<open>getSafeContext(input)\<close>. \<^verbatim>\<open>JSON.stringify\<close> does not throw on the values of the model,
  which are trees, so the \<^verbatim>\<open>catch\<close> around it is never entered.\<close>

definition getSafeContext :: "host \<Rightarrow> jsval \<Rightarrow> string" where
  "getSafeContext h input =
     (case input of
        JStr s \<Rightarrow>
          if startsWith s ''data:'' then ''[Image Data URL - Content Omitted from Text Context]''
          else if length s > 50000 then take 50000 s @ ''... [Truncated]''
          else s
      | _ \<Rightarrow>
          if typeof_object input \<and> input \<noteq> JNull then jsonStringify h 2 (redact input)
          else js_String (numberToString h) input)"

section \<open>One node: resolution, dispatch, output extraction\<close>

text \<open>A field that is set and not empty is resolved.\<close>

definition resolveIfSet :: "host \<Rightarrow> jsobject \<Rightarrow> string option \<Rightarrow> js_error + string option" where
  "resolveIfSet h vars field =
     (if truthy field
      then (case resolveVariables h vars field of Inr r \<Rightarrow> Inr (Some r) | Inl e \<Rightarrow> Inl e)
      else Inr field)"

text \<open>Step 1 of \<^verbatim>\<open>executeNode\<close>: the prompt, the URL, then the inputs or else the legacy
  single image.\<close>

definition resolveNodeData :: "host \<Rightarrow> node \<Rightarrow> engine \<Rightarrow> processed_data outcome" where
  "resolveNodeData h n st =
     (let d = node_data n in
      case resolveIfSet h (variables st) (prompt d) of
        Inl e \<Rightarrow> Throw e st
      | Inr p \<Rightarrow>
         (case resolveIfSet h (variables st) (apiUrl d) of
            Inl e \<Rightarrow> Throw e st
          | Inr u \<Rightarrow>
             (if inputs d \<noteq> None \<and> inputs d \<noteq> Some [] then
                (case resolveInputs h (inputs d) st of
                   Throw e st3 \<Rightarrow> Throw e st3
                 | Return rs st3 \<Rightarrow>
                     Return \<lparr> pd_data = d, pd_prompt = p, pd_apiUrl = u, pd_inputs = Some rs,
                              pd_inputImage = imageValue (inputImage d), pd_model = model d \<rparr> st3)
              else
                (case resolveInputImage (variables st) d of
                   Inl e \<Rightarrow> Throw e st
                 | Inr img \<Rightarrow>
                     Return \<lparr> pd_data = d, pd_prompt = p, pd_apiUrl = u,
                              pd_inputs = map_option (map unresolved) (inputs d),
                              pd_inputImage = img, pd_model = model d \<rparr> st))))"

text \<open>The object a form-data trigger builds: \<^verbatim>\<open>formDataObj[field.key] = field.value\<close> for
  every field with a key.\<close>

definition buildFormData :: "form_field list \<Rightarrow> jsval" where
  "buildFormData ffs =
     JObj (own (foldl (\<lambda>ob f. if ff_key f \<noteq> [] then assign (ff_key f) (JStr (ff_value f)) ob else ob)
                      emptyObject ffs))"

text \<open>The two cases of the \<^verbatim>\<open>switch\<close> that call the AI service: the context from the
  inbound payload, the default model where none is set, the call. A rejection is the
  error thrown.\<close>

definition callAi :: "host \<Rightarrow> string \<Rightarrow> processed_data \<Rightarrow> jsval \<Rightarrow> engine \<Rightarrow> jsval outcome" where
  "callAi h defaultModel pd inputData st =
     (let context = getSafeContext h inputData;
          pd' = (if truthy (pd_model pd) then pd else pd\<lparr> pd_model := Some defaultModel \<rparr>)
      in case executeAiNode h (length (logs st)) pd' context of
           Inl m \<Rightarrow> Throw (Error m) st
         | Inr v \<Rightarrow> Return v st)"

text \<open>The \<^verbatim>\<open>switch\<close> on the node's type.\<close>

definition dispatch :: "host \<Rightarrow> node \<Rightarrow> processed_data \<Rightarrow> jsval \<Rightarrow> engine \<Rightarrow> jsval outcome" where
  "dispatch h n pd inputData st =
     (case node_type n of
        Webhook \<Rightarrow>
          if webhookContentType (pd_data pd) = Some FormData then
            Return (buildFormData (case webhookFormData (pd_data pd) of None \<Rightarrow> [] | Some fs \<Rightarrow> fs))
                   (log h ''Loaded simulation Form-Data payload.'' st)
          else if truthy (webhookPayload (pd_data pd)) then
            (case jsonParse h (the (webhookPayload (pd_data pd))) of
               Some v \<Rightarrow> Return v (log h ''Loaded simulation JSON payload.'' st)
             | None \<Rightarrow>
                 Return (JObj [(''error'', JStr ''Invalid JSON Payload''),
                               (''raw'', JStr (the (webhookPayload (pd_data pd))))])
                        (log h ''Error parsing Webhook payload, using default.'' st))
          else
            Return (JObj [(''trigger'', JStr ''manual''),
                          (''timestamp'', JNum (dateNow h (length (logs st))))]) st
      | AiText \<Rightarrow> callAi h ''gemini-2.5-flash'' pd inputData st
      | AiImage \<Rightarrow>
          callAi h ''gemini-2.5-flash-image'' pd inputData
            (log h ''Requesting image generation/editing...'' st)
      | Variable \<Rightarrow> Return inputData st
      | Api \<Rightarrow>
          Return (JObj [(''status'', JNum 200), (''data'', JObj [(''mock'', JStr ''result'')])])
                 (log h (''Calling API: '' @ (if truthy (pd_apiUrl pd) then the (pd_apiUrl pd) else ''No URL'')) st)
      | Condition \<Rightarrow>
          Return inputData
                 (log h (''Checking condition: '' @
                         (if truthy (condition (pd_data pd)) then the (condition (pd_data pd)) else [])) st)
      | Loop \<Rightarrow> Return inputData st)"

text \<open>Step 2a: the primary output variable.\<close>

definition storeOutput :: "host \<Rightarrow> node \<Rightarrow> jsval \<Rightarrow> engine \<Rightarrow> engine" where
  "storeOutput h n outputData st =
     (if truthy (outputVariableName (node_data n)) then
        (let varName = trim (the (outputVariableName (node_data n))) in
         if varName \<noteq> [] then
           log h (''Stored output to variable '' @ quoted varName)
             (st\<lparr> variables := assign varName outputData (variables st) \<rparr>)
         else st)
      else st)"

text \<open>Step 2b: the \<^verbatim>\<open>forEach\<close> over the mappings of an output that is an object.\<close>

fun applyMappings :: "host \<Rightarrow> jsval \<Rightarrow> output_mapping list \<Rightarrow> engine \<Rightarrow> unit outcome" where
  "applyMappings h outputData [] st = Return () st"
| "applyMappings h outputData (m # ms) st =
     (if om_field m \<noteq> [] \<and> om_variable m \<noteq> [] then
        (let fieldName = trim (om_field m); varName = trim (om_variable m) in
         if \<not> valueMethodCallable outputData
         then Throw (notAFunction ''outputData.hasOwnProperty'') st
         else if valueHasOwn outputData fieldName then
           applyMappings h outputData ms
             (log h (''Stored field '' @ quoted fieldName @ '' to variable '' @ quoted varName)
                (st\<lparr> variables := assign varName (valueGet outputData fieldName) (variables st) \<rparr>))
         else
           applyMappings h outputData ms
             (log h (''Warning: Field '' @ quoted fieldName @ '' not found in output.'') st))
      else applyMappings h outputData ms st)"

definition extractMappings :: "host \<Rightarrow> node \<Rightarrow> jsval \<Rightarrow> engine \<Rightarrow> unit outcome" where
  "extractMappings h n outputData st =
     (case outputMappings (node_data n) of
        None \<Rightarrow> Return () st
      | Some ms \<Rightarrow>
          if ms = [] then Return () st
          else if typeof_object outputData \<and> outputData \<noteq> JNull then applyMappings h outputData ms st
          else Return () (log h ''Warning: Output Mappings ignored because output is not an object.'' st))"

text \<open>The \<^verbatim>\<open>try\<close> block of \<^verbatim>\<open>executeNode\<close> up to the search for the next nodes: it
  returns the node's output.\<close>

definition processNode :: "host \<Rightarrow> node \<Rightarrow> jsval \<Rightarrow> engine \<Rightarrow> jsval outcome" where
  "processNode h n inputData st =
     (case resolveNodeData h n st of
        Throw e st1 \<Rightarrow> Throw e st1
      | Return pd st1 \<Rightarrow>
         (case dispatch h n pd inputData st1 of
            Throw e st2 \<Rightarrow> Throw e st2
          | Return outputData st2 \<Rightarrow>
             (case extractMappings h n outputData (storeOutput h n outputData st2) of
                Throw e st3 \<Rightarrow> Throw e st3
              | Return _ st3 \<Rightarrow>
                  Return outputData
                    (log h (''Node '' @ label (node_data n) @ '' completed.'')
                       (updateNodeStatus (node_id n) StatusSuccess outputData None st3)))))"

section \<open>The traversal\<close>

definition typeName :: "node_type \<Rightarrow> string" where
  "typeName t =
     (case t of Webhook \<Rightarrow> ''webhook'' | AiText \<Rightarrow> ''ai-text'' | AiImage \<Rightarrow> ''ai-image''
      | Condition \<Rightarrow> ''condition'' | Loop \<Rightarrow> ''loop'' | Api \<Rightarrow> ''api'' | Variable \<Rightarrow> ''variable'')"

text \<open>The two statements of \<^verbatim>\<open>executeNode\<close> before its \<^verbatim>\<open>try\<close>, and its \<^verbatim>\<open>catch\<close>.\<close>

definition enterNode :: "host \<Rightarrow> node \<Rightarrow> engine \<Rightarrow> engine" where
  "enterNode h n st =
     log h (''Executing node: '' @ label (node_data n) @ '' ('' @ typeName (node_type n) @ '')'')
       (updateNodeStatus (node_id n) StatusRunning JUndefined None st)"

definition catchError :: "host \<Rightarrow> node \<Rightarrow> js_error \<Rightarrow> engine \<Rightarrow> engine" where
  "catchError h n err st =
     log h (''Error in node '' @ label (node_data n) @ '': '' @ message err)
       (updateNodeStatus (node_id n) StatusError JUndefined (Some (message err)) st)"

text \<open>
  \<^verbatim>\<open>executeNode\<close> and its loop over the outgoing edges. The recursion of the source has
  no bound (a cycle of the graph never ends), so the model counts the depth of nested
  calls down from a given fuel: \<^const>\<open>None\<close> says the fuel did not suffice. An
  exception of a nested call would leave the loop and reach the \<^verbatim>\<open>catch\<close> of the caller.
  The exhaustion of the call stack is outside the model.
\<close>

fun executeNode :: "nat \<Rightarrow> host \<Rightarrow> node \<Rightarrow> jsval \<Rightarrow> engine \<Rightarrow> unit outcome option"
  and visitEdges :: "nat \<Rightarrow> host \<Rightarrow> edge list \<Rightarrow> jsval \<Rightarrow> engine \<Rightarrow> unit outcome option" where
  "executeNode 0 h n inputData st = None"
| "executeNode (Suc k) h n inputData st =
     (case processNode h n inputData (enterNode h n st) of
        Throw e st1 \<Rightarrow> Some (Return () (catchError h n e st1))
      | Return outputData st1 \<Rightarrow>
         (case visitEdges k h (filter (\<lambda>e. source e = node_id n) (edges st1)) outputData st1 of
            None \<Rightarrow> None
          | Some (Throw e st2) \<Rightarrow> Some (Return () (catchError h n e st2))
          | Some (Return _ st2) \<Rightarrow> Some (Return () st2)))"
| "visitEdges k h [] outputData st = Some (Return () st)"
| "visitEdges k h (e # es) outputData st =
     (case find (\<lambda>n. node_id n = target e) (nodes st) of
        None \<Rightarrow> visitEdges k h es outputData st
      | Some nextNode \<Rightarrow>
         (case executeNode k h nextNode outputData st of
            None \<Rightarrow> None
          | Some (Throw err st1) \<Rightarrow> Some (Throw err st1)
          | Some (Return _ st1) \<Rightarrow> visitEdges k h es outputData st1))"

definition resetNode :: "node \<Rightarrow> node" where
  "resetNode n =
     n\<lparr> node_data := (node_data n)\<lparr> status := Some StatusIdle, outputValue := JNull, errorMessage := None \<rparr> \<rparr>"

text \<open>\<^verbatim>\<open>run()\<close>. The trigger is handed to \<^verbatim>\<open>executeNode\<close> as it was found, before the
  reset.\<close>

definition run :: "nat \<Rightarrow> host \<Rightarrow> engine \<Rightarrow> unit outcome option" where
  "run k h st =
     (let st0 = log h ''Starting workflow execution...'' st in
      case find (\<lambda>n. node_type n = Webhook) (nodes st0) of
        None \<Rightarrow> Some (Return () (log h ''Error: No Webhook/Start trigger found.'' st0))
      | Some startNode \<Rightarrow>
         (case executeNode k h startNode (JStr ''Workflow triggered.'')
                 (st0\<lparr> variables := emptyObject, nodes := map resetNode (nodes st0) \<rparr>) of
            None \<Rightarrow> None
          | Some (Throw e st1) \<Rightarrow> Some (Throw e st1)
          | Some (Return _ st1) \<Rightarrow>
              Some (Return ()
                (log h (''Final Global Variables: '' @
                        jsonStringify h 0 (JArr (map (\<lambda>k. JStr k) (map fst (own (variables st1))))))
                   (log h ''Workflow execution finished.'' st1)))))"

text \<open>The engine as its constructor leaves it.\<close>

definition newEngine :: "node list \<Rightarrow> edge list \<Rightarrow> engine" where
  "newEngine ns es = \<lparr> nodes = ns, edges = es, logs = [], variables = emptyObject \<rparr>"

section \<open>Notions of the specification, and examples\<close>

text \<open>
  The placeholder pattern in words: two opening braces, optional white space, a name of
  at least one character of the class, optional white space, two closing braces. A string
  contains a placeholder when some part of it has this form. The second definition is
  the scan the engine performs, position by position.
\<close>

definition placeholderForm :: "string \<Rightarrow> bool" where
  "placeholderForm p =
     (\<exists>ws1 name ws2. p = ''{{'' @ ws1 @ name @ ws2 @ ''}}'' \<and> list_all is_space ws1 \<and>
        name \<noteq> [] \<and> list_all is_name_char name \<and> list_all is_space ws2)"

definition containsPlaceholder :: "string \<Rightarrow> bool" where
  "containsPlaceholder s = (\<exists>pre p post. s = pre @ p @ post \<and> placeholderForm p)"

fun occursPlaceholder :: "string \<Rightarrow> bool" where
  "occursPlaceholder [] = False"
| "occursPlaceholder (c # cs) =
     (case matchPlaceholder (c # cs) of Some _ \<Rightarrow> True | None \<Rightarrow> occursPlaceholder cs)"

text \<open>The names of the placeholders of a text, in the order \<^verbatim>\<open>replace\<close> meets them.\<close>

function placeholderNames :: "string \<Rightarrow> string list" where
  "placeholderNames [] = []"
| "placeholderNames (c # cs) =
     (case matchPlaceholder (c # cs) of
        Some (name, rest) \<Rightarrow> name # placeholderNames rest
      | None \<Rightarrow> placeholderNames cs)"
  by pat_completeness auto
termination
  by (relation "measure length") (auto dest: matchPlaceholder_shorter)

text \<open>What the extraction does with one mapping of an output that is an object.\<close>

definition mappingStep :: "host \<Rightarrow> jsval \<Rightarrow> engine \<Rightarrow> output_mapping \<Rightarrow> engine" where
  "mappingStep h out st m =
     (if om_field m = [] \<or> om_variable m = [] then st
      else if valueHasOwn out (trim (om_field m)) then
        log h (''Stored field '' @ quoted (trim (om_field m)) @ '' to variable '' @
               quoted (trim (om_variable m)))
          (st\<lparr> variables := assign (trim (om_variable m)) (valueGet out (trim (om_field m)))
                                (variables st) \<rparr>)
      else log h (''Warning: Field '' @ quoted (trim (om_field m)) @ '' not found in output.'') st)"


text \<open>The identifier and the status of every node.\<close>

definition statuses :: "engine \<Rightarrow> (string \<times> node_status option) list" where
  "statuses st = map (\<lambda>n. (node_id n, status (node_data n))) (nodes st)"

text \<open>A node's data with nothing configured.\<close>

definition emptyData :: node_data where
  "emptyData = \<lparr> label = [], prompt = None, model = None, inputImage = None,
     inputImageVariable = None, inputs = None, outputVariableName = None, outputMappings = None,
     condition = None, apiUrl = None, webhookContentType = None, webhookPayload = None,
     webhookFormData = None, outputValue = JUndefined, status = None, errorMessage = None \<rparr>"

text \<open>The payload \<^verbatim>\<open>{"n": 5}\<close>. A host for the examples: its AI service answers \<^verbatim>\<open>"10"\<close>,
  its \<^verbatim>\<open>JSON.parse\<close> knows this one payload, and it prints numbers in decimal digits. A
  second host, whose AI service fails.\<close>

definition payloadN5 :: string where
  "payloadN5 = ''{'' @ [CHR 0x22] @ ''n'' @ [CHR 0x22] @ '': 5}''"

definition stubHost :: host where
  "stubHost = \<lparr> executeAiNode = (\<lambda>t pd c. Inr (JStr ''10'')),
      jsonParse = (\<lambda>s. if s = payloadN5 then Some (JObj [(''n'', JNum 5)]) else None),
      jsonStringify = (\<lambda>i v. ''<json>''),
      numberToString = show_int,
      dateNow = (\<lambda>t. 0),
      localeTime = (\<lambda>t. ''12:00:00'') \<rparr>"

definition failingHost :: host where
  "failingHost = stubHost\<lparr> executeAiNode := (\<lambda>t pd c. Inl ''quota exceeded'') \<rparr>"

text \<open>The store after \<^verbatim>\<open>b\<close> and then \<^verbatim>\<open>a\<close> were written.\<close>

definition storeBA :: jsobject where
  "storeBA = assign ''a'' (JNum 2) (assign ''b'' (JNum 1) emptyObject)"

text \<open>The store after a node wrote its output to the variable \<^verbatim>\<open>hasOwnProperty\<close>, and
  a node that does so.\<close>

definition shadowedStore :: jsobject where
  "shadowedStore = assign ''hasOwnProperty'' (JStr ''x'') emptyObject"

definition shadowingNode :: node where
  "shadowingNode = \<lparr> node_id = ''s'', node_type = Variable,
     node_data = emptyData\<lparr> label := ''Keep'', outputVariableName := Some ''hasOwnProperty'' \<rparr> \<rparr>"

text \<open>The graph of the end-to-end example: a trigger with the payload, once without and
  once with the mapping of the field \<^verbatim>\<open>n\<close> to the variable \<^verbatim>\<open>n\<close>, and a text node.\<close>

definition triggerN5 :: node where
  "triggerN5 = \<lparr> node_id = ''trigger'', node_type = Webhook,
     node_data = emptyData\<lparr> label := ''Start'', webhookPayload := Some payloadN5 \<rparr> \<rparr>"

definition triggerN5mapped :: node where
  "triggerN5mapped = triggerN5\<lparr> node_data := (node_data triggerN5)\<lparr>
     outputMappings := Some [\<lparr> om_field = ''n'', om_variable = ''n'' \<rparr>] \<rparr> \<rparr>"

definition generateText :: node where
  "generateText = \<lparr> node_id = ''generate'', node_type = AiText,
     node_data = emptyData\<lparr> label := ''Double'', prompt := Some ''double {{n}}'',
       outputVariableName := Some ''result'' \<rparr> \<rparr>"

definition triggerToGenerate :: edge where
  "triggerToGenerate = \<lparr> edge_id = ''e1'', source = ''trigger'', target = ''generate'' \<rparr>"

text \<open>A trigger with two edges: to the AI node \<^verbatim>\<open>A\<close> and to the passthrough node \<^verbatim>\<open>B\<close>.\<close>

definition plainTrigger :: node where
  "plainTrigger = \<lparr> node_id = ''trigger'', node_type = Webhook,
     node_data = emptyData\<lparr> label := ''Start'' \<rparr> \<rparr>"

definition nodeA :: node where
  "nodeA = \<lparr> node_id = ''A'', node_type = AiText,
     node_data = emptyData\<lparr> label := ''A'', prompt := Some ''summarise'' \<rparr> \<rparr>"

definition nodeB :: node where
  "nodeB = \<lparr> node_id = ''B'', node_type = Variable,
     node_data = emptyData\<lparr> label := ''B'', outputVariableName := Some ''b'' \<rparr> \<rparr>"

definition toA :: edge where
  "toA = \<lparr> edge_id = ''e1'', source = ''trigger'', target = ''A'' \<rparr>"

definition toB :: edge where
  "toB = \<lparr> edge_id = ''e2'', source = ''trigger'', target = ''B'' \<rparr>"

definition forkGraph :: engine where
  "forkGraph = newEngine [plainTrigger, nodeA, nodeB] [toA, toB]"

text \<open>A form-data trigger with a field of the key \<^verbatim>\<open>hasOwnProperty\<close>, an output variable
  and a mapping.\<close>

definition formTrigger :: node where
  "formTrigger = \<lparr> node_id = ''trigger'', node_type = Webhook,
     node_data = emptyData\<lparr> label := ''Start'', webhookContentType := Some FormData,
       webhookFormData := Some [\<lparr> ff_id = ''f1'', ff_key = ''hasOwnProperty'', ff_value = ''1'' \<rparr>],
       outputVariableName := Some ''trigger_data'',
       outputMappings := Some [\<lparr> om_field = ''a'', om_variable = ''b'' \<rparr>] \<rparr> \<rparr>"

text \<open>The result \<^verbatim>\<open>{x: 1, y: 2}\<close> and a node that declares the given mappings.\<close>

definition resultXY :: jsval where
  "resultXY = JObj [(''x'', JNum 1), (''y'', JNum 2)]"

definition mappingNode :: "output_mapping list \<Rightarrow> node" where
  "mappingNode ms = \<lparr> node_id = ''m'', node_type = Variable,
     node_data = emptyData\<lparr> label := ''Map'', outputMappings := Some ms \<rparr> \<rparr>"

section \<open>Auxiliary facts\<close>

lemma name_not_space: "is_name_char c \<Longrightarrow> \<not> is_space c"
  by (auto simp: is_name_char_def is_space_def)

lemma brace_not_name: "\<not> is_name_char CHR ''}''"
  by (simp add: is_name_char_def)

lemma brace_not_space: "\<not> is_space CHR ''}''"
  by (simp add: is_space_def)

lemma dropWhile_all: "list_all P xs \<Longrightarrow> dropWhile P (xs @ ys) = dropWhile P ys"
  by (induction xs) auto

lemma takeWhile_all: "list_all P xs \<Longrightarrow> takeWhile P (xs @ ys) = xs @ takeWhile P ys"
  by (induction xs) auto

lemma takeWhile_name_spaces:
  "list_all is_space ws \<Longrightarrow> takeWhile is_name_char (ws @ CHR ''}'' # r) = []"
  by (cases ws) (auto simp: brace_not_name dest: name_not_space)

lemma dropWhile_name_spaces:
  "list_all is_space ws \<Longrightarrow> dropWhile is_name_char (ws @ CHR ''}'' # r) = ws @ CHR ''}'' # r"
  by (cases ws) (auto simp: brace_not_name dest: name_not_space)

lemma matchPlaceholder_form:
  assumes "list_all is_space ws1" "name \<noteq> []" "list_all is_name_char name" "list_all is_space ws2"
  shows "matchPlaceholder (''{{'' @ ws1 @ name @ ws2 @ ''}}'' @ post) = Some (name, post)"
proof -
  obtain a as where n: "name = a # as" using assms(2) by (cases name) auto
  with assms(3) have a: "\<not> is_space a" by (auto dest: name_not_space)
  let ?tl = "ws2 @ CHR ''}'' # CHR ''}'' # post"
  have 1: "dropWhile is_space (ws1 @ name @ ?tl) = name @ ?tl"
    using assms(1) a n by (simp add: dropWhile_all)
  have 2: "takeWhile is_name_char (name @ ?tl) = name"
    using assms(3,4) by (simp add: takeWhile_all takeWhile_name_spaces)
  have 3: "dropWhile is_name_char (name @ ?tl) = ?tl"
    using assms(3,4) by (simp add: dropWhile_all dropWhile_name_spaces)
  have 4: "dropWhile is_space ?tl = CHR ''}'' # CHR ''}'' # post"
    using assms(4) by (simp add: dropWhile_all brace_not_space)
  show ?thesis
    using assms(2) by (simp add: matchPlaceholder_def startsWith_def 1 2 3 4)
qed

lemma startsWith_split: "startsWith s p \<Longrightarrow> s = p @ drop (length p) s"
  by (metis append_take_drop_id startsWith_def)

lemma matchPlaceholder_decompose:
  assumes "matchPlaceholder s = Some (name, rest)"
  shows "\<exists>ws1 ws2. s = ''{{'' @ ws1 @ name @ ws2 @ ''}}'' @ rest \<and> list_all is_space ws1 \<and>
           name \<noteq> [] \<and> list_all is_name_char name \<and> list_all is_space ws2"
proof -
  define r0 where "r0 = drop 2 s"
  define r1 where "r1 = dropWhile is_space r0"
  define r2 where "r2 = dropWhile is_name_char r1"
  define r3 where "r3 = dropWhile is_space r2"
  from assms have s: "startsWith s ''{{''" and nm: "name = takeWhile is_name_char r1"
    and ne: "name \<noteq> []" and e: "startsWith r3 ''}}''" and rest: "rest = drop 2 r3"
    by (auto simp: matchPlaceholder_def Let_def r0_def r1_def r2_def r3_def split: if_splits)
  have "s = ''{{'' @ r0" using startsWith_split[OF s] by (simp add: r0_def numeral_2_eq_2)
  moreover have "r0 = takeWhile is_space r0 @ r1" by (simp add: r1_def)
  moreover have "r1 = name @ r2" by (simp add: nm r2_def)
  moreover have "r2 = takeWhile is_space r2 @ r3" by (simp add: r3_def)
  moreover have "r3 = ''}}'' @ rest" using startsWith_split[OF e] by (simp add: rest numeral_2_eq_2)
  ultimately have "s = ''{{'' @ takeWhile is_space r0 @ name @ takeWhile is_space r2 @ ''}}'' @ rest"
    by (metis append_assoc)
  moreover have "list_all is_space (takeWhile is_space r0)" "list_all is_space (takeWhile is_space r2)"
    "list_all is_name_char name"
    by (auto simp: list_all_iff nm dest: set_takeWhileD)
  ultimately show ?thesis using ne by blast
qed

lemma occursPlaceholder_append: "occursPlaceholder ys \<Longrightarrow> occursPlaceholder (xs @ ys)"
  by (induction xs) (auto split: option.splits)

lemma containsPlaceholder_iff: "containsPlaceholder s = occursPlaceholder s"
proof
  assume "containsPlaceholder s"
  then obtain pre ws1 name ws2 post where s: "s = pre @ (''{{'' @ ws1 @ name @ ws2 @ ''}}'') @ post"
    and f: "list_all is_space ws1" "name \<noteq> []" "list_all is_name_char name" "list_all is_space ws2"
    by (auto simp: containsPlaceholder_def placeholderForm_def)
  have "matchPlaceholder (''{{'' @ ws1 @ name @ ws2 @ ''}}'' @ post) = Some (name, post)"
    by (rule matchPlaceholder_form[OF f])
  then have "occursPlaceholder (''{{'' @ ws1 @ name @ ws2 @ ''}}'' @ post)"
    by simp
  then show "occursPlaceholder s"
    unfolding s using occursPlaceholder_append by simp
next
  assume "occursPlaceholder s"
  then show "containsPlaceholder s"
  proof (induction s)
    case Nil
    then show ?case by simp
  next
    case (Cons c cs)
    show ?case
    proof (cases "matchPlaceholder (c # cs)")
      case None
      with Cons obtain pre p post where "cs = pre @ p @ post" "placeholderForm p"
        by (auto simp: containsPlaceholder_def)
      then have "c # cs = (c # pre) @ p @ post" by simp
      then show ?thesis using \<open>placeholderForm p\<close> unfolding containsPlaceholder_def by blast
    next
      case (Some a)
      obtain name rest where "a = (name, rest)" by (cases a)
      with Some matchPlaceholder_decompose obtain ws1 ws2 where
        "c # cs = ''{{'' @ ws1 @ name @ ws2 @ ''}}'' @ rest" "list_all is_space ws1"
        "name \<noteq> []" "list_all is_name_char name" "list_all is_space ws2"
        by blast
      then have "c # cs = [] @ (''{{'' @ ws1 @ name @ ws2 @ ''}}'') @ rest"
        "placeholderForm (''{{'' @ ws1 @ name @ ws2 @ ''}}'')"
        unfolding placeholderForm_def by auto
      then show ?thesis unfolding containsPlaceholder_def by blast
    qed
  qed
qed

lemma replacePlaceholders_none: "\<not> occursPlaceholder s \<Longrightarrow> replacePlaceholders f s = Inr s"
  by (induction s) (auto split: option.splits)

lemma variables_log [simp]: "variables (log h m st) = variables st"
  by (simp add: log_def)

lemma nodes_log [simp]: "nodes (log h m st) = nodes st"
  by (simp add: log_def)

lemma edges_log [simp]: "edges (log h m st) = edges st"
  by (simp add: log_def)

lemma foldl_log_variables [simp]: "variables (foldl (\<lambda>s m. log h m s) st ms) = variables st"
  by (induction ms arbitrary: st) auto

lemma resolveEach_eq:
  "resolveEach h is st =
     Return (map (\<lambda>i. if ni_type i = VariableInput
                       then (case resolveVariableValue (variables st) (ni_value i) of
                               Inr v \<Rightarrow> (unresolved i)\<lparr> ri_value := v \<rparr>
                             | Inl e \<Rightarrow> unresolved i)
                       else unresolved i) is)
            (foldl (\<lambda>s m. log h m s) st
               (concat (map (\<lambda>i. if ni_type i = VariableInput
                       then (case resolveVariableValue (variables st) (ni_value i) of
                               Inr v \<Rightarrow> []
                             | Inl e \<Rightarrow> [''Warning: '' @ message e])
                       else []) is)))"
proof (induction "is" arbitrary: st)
  case Nil
  then show ?case by simp
next
  case (Cons i "is")
  show ?case
    by (simp add: Cons.IH split: sum.splits cong: if_cong)
qed

lemma logs_log: "logs (log h m st) = logs st @ [''['' @ localeTime h (length (logs st)) @ ''] '' @ m]"
  by (simp add: log_def)

lemma foldl_log_nodes [simp]: "nodes (foldl (\<lambda>s m. log h m s) st ms) = nodes st"
  by (induction ms arbitrary: st) auto

lemma foldl_log_edges [simp]: "edges (foldl (\<lambda>s m. log h m s) st ms) = edges st"
  by (induction ms arbitrary: st) auto

lemma resolveInputs_Return:
  "\<exists>rs st'. resolveInputs h ins st = Return rs st' \<and> nodes st' = nodes st \<and>
     edges st' = edges st \<and> variables st' = variables st"
  by (cases ins) (simp_all add: resolveInputs_def resolveEach_eq)

lemma resolveNodeData_final:
  "nodes (final (resolveNodeData h n st)) = nodes st \<and>
   edges (final (resolveNodeData h n st)) = edges st \<and>
   variables (final (resolveNodeData h n st)) = variables st"
proof -
  obtain rs st' where r: "resolveInputs h (inputs (node_data n)) st = Return rs st'"
    "nodes st' = nodes st" "edges st' = edges st" "variables st' = variables st"
    using resolveInputs_Return by blast
  show ?thesis
    by (simp add: resolveNodeData_def Let_def r split: sum.splits)
qed

lemma callAi_final:
  "nodes (final (callAi h m pd inp st)) = nodes st \<and> edges (final (callAi h m pd inp st)) = edges st \<and>
   variables (final (callAi h m pd inp st)) = variables st"
  by (simp add: callAi_def Let_def split: sum.splits)

lemma dispatch_final:
  "nodes (final (dispatch h n pd inp st)) = nodes st \<and>
   edges (final (dispatch h n pd inp st)) = edges st \<and>
   variables (final (dispatch h n pd inp st)) = variables st"
  by (simp add: dispatch_def callAi_final split: node_type.splits option.splits)

lemma storeOutput_nodes [simp]: "nodes (storeOutput h n out st) = nodes st"
  by (simp add: storeOutput_def Let_def)

lemma storeOutput_edges [simp]: "edges (storeOutput h n out st) = edges st"
  by (simp add: storeOutput_def Let_def)

lemma applyMappings_final:
  "nodes (final (applyMappings h out ms st)) = nodes st \<and>
   edges (final (applyMappings h out ms st)) = edges st"
  by (induction ms arbitrary: st) (simp_all add: Let_def)

lemma extractMappings_final:
  "nodes (final (extractMappings h n out st)) = nodes st \<and>
   edges (final (extractMappings h n out st)) = edges st"
  by (simp add: extractMappings_def applyMappings_final split: option.splits)

lemma processNode_Throw:
  assumes "processNode h n inp st = Throw e s"
  shows "nodes s = nodes st \<and> edges s = edges st"
proof -
  have f: "final (processNode h n inp st) = s"
    using assms by simp
  show ?thesis
  proof (cases "resolveNodeData h n st")
    case (Throw e1 s1)
    with assms resolveNodeData_final[of h n st] show ?thesis
      by (simp add: processNode_def)
  next
    case r: (Return pd s1)
    with resolveNodeData_final[of h n st] have s1: "nodes s1 = nodes st" "edges s1 = edges st"
      by simp_all
    show ?thesis
    proof (cases "dispatch h n pd inp s1")
      case (Throw e2 s2)
      with assms r dispatch_final[of h n pd inp s1] s1 show ?thesis
        by (simp add: processNode_def)
    next
      case d: (Return out s2)
      with dispatch_final[of h n pd inp s1] s1 have s2: "nodes s2 = nodes st" "edges s2 = edges st"
        by simp_all
      show ?thesis
      proof (cases "extractMappings h n out (storeOutput h n out s2)")
        case (Throw e3 s3)
        with assms r d extractMappings_final[of h n out "storeOutput h n out s2"] s2 show ?thesis
          by (simp add: processNode_def)
      next
        case (Return u s3)
        with assms r d show ?thesis
          by (simp add: processNode_def)
      qed
    qed
  qed
qed


lemma map_of_updateOwn: "hasOwn ps k \<Longrightarrow> map_of (updateOwn k v ps) k = Some v"
  by (induction ps) (auto simp: hasOwn_def)

lemma map_of_insertOwn: "\<not> hasOwn ps k \<Longrightarrow> map_of (insertOwn k v ps) k = Some v"
  by (induction ps) (auto simp: hasOwn_def)

lemma map_of_defineOwn: "map_of (defineOwn k v ps) k = Some v"
  by (simp add: defineOwn_def map_of_updateOwn map_of_insertOwn)

lemma assign_get:
  "k \<noteq> ''__proto__'' \<Longrightarrow> hasOwn (own (assign k v ob)) k \<and> getOwn (own (assign k v ob)) k = v"
  by (simp add: assign_def hasOwn_def getOwn_def map_of_defineOwn)

lemma applyMappings_foldl:
  "valueMethodCallable out \<Longrightarrow> applyMappings h out ms st = Return () (foldl (mappingStep h out) st ms)"
  by (induction ms arbitrary: st) (simp_all add: mappingStep_def Let_def)

lemma replacePlaceholders_first_failure:
  "find (\<lambda>n. isl (f n)) (placeholderNames t) = Some n \<Longrightarrow> replacePlaceholders f t = Inl (projl (f n))"
proof (induction f t rule: replacePlaceholders.induct)
  case (1 f)
  then show ?case by simp
next
  case (2 f c cs)
  show ?case
  proof (cases "matchPlaceholder (c # cs)")
    case None
    with 2 show ?thesis by simp
  next
    case (Some a)
    obtain name rest where a: "a = (name, rest)" by (cases a)
    show ?thesis
    proof (cases "f name")
      case (Inl e)
      with 2(3) Some a show ?thesis by simp
    next
      case (Inr v)
      with 2(3) Some a have "find (\<lambda>n. isl (f n)) (placeholderNames rest) = Some n"
        by simp
      with 2(2)[OF Some a[symmetric] Inr] have "replacePlaceholders f rest = Inl (projl (f n))"
        by simp
      with Some a Inr show ?thesis by simp
    qed
  qed
qed

lemma unresolved_placeholder_fails:
  assumes "hasOwnProperty_callable vars"
    and "find (\<lambda>n. \<not> hasOwn (own vars) n) (placeholderNames t) = Some n"
  shows "resolveVariables h vars (Some t) = Inl (variableNotFound n vars)"
proof -
  have i: "isl (substitute h vars m) = (\<not> hasOwn (own vars) m)" for m
    using assms(1) by (simp add: substitute_def Let_def)
  from assms(2) have n: "\<not> hasOwn (own vars) n"
    by (auto simp: find_Some_iff)
  from assms(2) have "t \<noteq> []"
    by auto
  moreover have "replacePlaceholders (substitute h vars) t = Inl (projl (substitute h vars n))"
    using assms(2) by (intro replacePlaceholders_first_failure) (simp add: i)
  moreover have "substitute h vars n = Inl (variableNotFound n vars)"
    using assms(1) n by (simp add: substitute_def)
  ultimately show ?thesis
    by (simp add: resolveVariables_def)
qed


lemma updateNodeStatus_edges [simp]: "edges (updateNodeStatus i s out err st) = edges st"
  by (simp add: updateNodeStatus_def)

lemma updateNodeStatus_variables [simp]: "variables (updateNodeStatus i s out err st) = variables st"
  by (simp add: updateNodeStatus_def)

lemma enterNode_edges [simp]: "edges (enterNode h n st) = edges st"
  by (simp add: enterNode_def)

lemma enterNode_variables [simp]: "variables (enterNode h n st) = variables st"
  by (simp add: enterNode_def)

lemma catchError_edges [simp]: "edges (catchError h n e st) = edges st"
  by (simp add: catchError_def)

lemma catchError_variables [simp]: "variables (catchError h n e st) = variables st"
  by (simp add: catchError_def)






lemma applyMappings_Throw:
  "applyMappings h out ms st = Throw e s \<Longrightarrow> e = notAFunction ''outputData.hasOwnProperty''"
  by (induction ms arbitrary: st) (auto simp: Let_def split: if_splits)

lemma processNode_atomic:
  assumes "processNode h n inp st = Throw e s" "e \<noteq> notAFunction ''outputData.hasOwnProperty''"
  shows "variables s = variables st"
proof (cases "resolveNodeData h n st")
  case (Throw e1 s1)
  with assms resolveNodeData_final[of h n st] show ?thesis
    by (simp add: processNode_def)
next
  case r: (Return pd s1)
  with resolveNodeData_final[of h n st] have s1: "variables s1 = variables st"
    by simp
  show ?thesis
  proof (cases "dispatch h n pd inp s1")
    case (Throw e2 s2)
    with assms r dispatch_final[of h n pd inp s1] s1 show ?thesis
      by (simp add: processNode_def)
  next
    case d: (Return out s2)
    show ?thesis
    proof (cases "extractMappings h n out (storeOutput h n out s2)")
      case (Throw e3 s3)
      with assms r d have "e3 = e" by (simp add: processNode_def)
      with Throw assms(2) show ?thesis
        by (auto simp: extractMappings_def split: option.splits if_splits dest: applyMappings_Throw)
    next
      case (Return u s3)
      with assms r d show ?thesis
        by (simp add: processNode_def)
    qed
  qed
qed


lemmas engine_defs = run_def newEngine_def enterNode_def processNode_def resolveNodeData_def
  resolveIfSet_def truthy_def resolveVariables_def resolveInputImage_def imageValue_def dispatch_def
  callAi_def storeOutput_def extractMappings_def updateNodeStatus_def log_def catchError_def
  resetNode_def statuses_def Let_def typeName_def assign_def defineOwn_def hasOwn_def getOwn_def
  emptyObject_def trim_def is_space_def matchPlaceholder_def startsWith_def is_name_char_def
  substitute_def hasOwnProperty_callable_def quoted_def
  is_array_index_def is_digit_def

section \<open>The claims\<close>

text \<open>
  Claim C1. When the resolution or the dispatch of a node \<open>n\<close> throws, \<^verbatim>\<open>executeNode\<close>
  returns at once from its \<^verbatim>\<open>catch\<close>: no edge that leaves \<open>n\<close> is followed. In the
  state it returns, the nodes of the identifier of \<open>n\<close> have the status \<^verbatim>\<open>error\<close> and the
  message of the error, every other node is as it was before the call, and the edges are
  unchanged. The loop of the predecessor that visited \<open>n\<close> goes on with its remaining
  edges from that state. The example is the graph of a trigger with the edges to \<^verbatim>\<open>A\<close>
  and to \<^verbatim>\<open>B\<close>, where the AI call of \<^verbatim>\<open>A\<close> fails: \<^verbatim>\<open>B\<close> ends with \<^verbatim>\<open>success\<close>.
\<close>

theorem failure_isolation:
  assumes "processNode h n inp (enterNode h n st) = Throw e s"
  shows "executeNode (Suc k) h n inp st = Some (Return () (catchError h n e s)) \<and>
         nodes (catchError h n e s) =
           map (\<lambda>m. if node_id m = node_id n
                     then m\<lparr> node_data := (node_data m)\<lparr> status := Some StatusError,
                                                          errorMessage := Some (message e) \<rparr> \<rparr>
                     else m) (nodes st) \<and>
         edges (catchError h n e s) = edges st \<and>
         (find (\<lambda>m. node_id m = target ed) (nodes st) = Some n \<longrightarrow>
            visitEdges (Suc k) h (ed # es) inp st =
              visitEdges (Suc k) h es inp (catchError h n e s))"
proof -
  from processNode_Throw[OF assms] have "nodes s = nodes (enterNode h n st)" "edges s = edges (enterNode h n st)"
    by simp_all
  then show ?thesis
    using assms
    by (simp add: catchError_def enterNode_def updateNodeStatus_def o_def cong: if_cong)
qed


theorem failure_isolation_witness:
  "processNode failingHost nodeA JNull (enterNode failingHost nodeA forkGraph) =
     Throw (Error ''quota exceeded'') (enterNode failingHost nodeA forkGraph) \<and>
   find (\<lambda>m. node_id m = target toA) (nodes forkGraph) = Some nodeA \<and>
   visitEdges 1 failingHost [toA, toB] JNull forkGraph =
     visitEdges 1 failingHost [toB] JNull
       (catchError failingHost nodeA (Error ''quota exceeded'') (enterNode failingHost nodeA forkGraph)) \<and>
   (case run 2 failingHost forkGraph of
      Some (Return _ st) \<Rightarrow>
        statuses st = [(''trigger'', Some StatusSuccess), (''A'', Some StatusError), (''B'', Some StatusSuccess)]
    | _ \<Rightarrow> False)"
proof -
  have 1: "processNode failingHost nodeA JNull (enterNode failingHost nodeA forkGraph) =
     Throw (Error ''quota exceeded'') (enterNode failingHost nodeA forkGraph)"
    by code_simp
  have 2: "find (\<lambda>m. node_id m = target toA) (nodes forkGraph) = Some nodeA"
    by code_simp
  have 3: "(case run 2 failingHost forkGraph of
      Some (Return _ st) \<Rightarrow>
        statuses st = [(''trigger'', Some StatusSuccess), (''A'', Some StatusError), (''B'', Some StatusSuccess)]
    | _ \<Rightarrow> False)"
    by code_simp
  show ?thesis
    using failure_isolation[OF 1, of 0 toA "[toB]"] 1 2 3
    by (simp del: visitEdges.simps)
qed

text \<open>
  Claim C2, as amended. The trigger has the payload \<^verbatim>\<open>{"n": 5}\<close> and the output mapping of
  the field \<^verbatim>\<open>n\<close> to the variable \<^verbatim>\<open>n\<close>; the text node downstream has the prompt
  \<^verbatim>\<open>double {{n}}\<close> and the output variable \<^verbatim>\<open>result\<close>; the AI service answers \<^verbatim>\<open>"10"\<close>. Then
  the run returns, the variable \<^verbatim>\<open>result\<close> holds \<^verbatim>\<open>"10"\<close>, and both nodes have the status
  \<^verbatim>\<open>success\<close>.
\<close>

theorem end_to_end:
  assumes "jsonParse h payloadN5 = Some (JObj [(''n'', JNum 5)])"
    and "\<And>t pd c. executeAiNode h t pd c = Inr (JStr ''10'')"
  shows "\<exists>st. run (Suc (Suc k)) h (newEngine [triggerN5mapped, generateText] [triggerToGenerate]) =
             Some (Return () st) \<and>
           statuses st = [(''trigger'', Some StatusSuccess), (''generate'', Some StatusSuccess)] \<and>
           hasOwn (own (variables st)) ''result'' \<and>
           getOwn (own (variables st)) ''result'' = JStr ''10''"
proof -
  have "payloadN5 \<noteq> []"
    by (simp add: payloadN5_def)
  with assms show ?thesis
    by (simp add: engine_defs triggerN5mapped_def triggerN5_def generateText_def
        triggerToGenerate_def emptyData_def)
qed

theorem end_to_end_witness:
  "jsonParse stubHost payloadN5 = Some (JObj [(''n'', JNum 5)]) \<and>
   (\<exists>st. run 2 stubHost (newEngine [triggerN5mapped, generateText] [triggerToGenerate]) =
             Some (Return () st) \<and>
           statuses st = [(''trigger'', Some StatusSuccess), (''generate'', Some StatusSuccess)] \<and>
           hasOwn (own (variables st)) ''result'' \<and>
           getOwn (own (variables st)) ''result'' = JStr ''10'')"
proof -
  have p: "jsonParse stubHost payloadN5 = Some (JObj [(''n'', JNum 5)])"
    by (simp add: stubHost_def payloadN5_def)
  have a: "executeAiNode stubHost t pd c = Inr (JStr ''10'')" for t pd c
    by (simp add: stubHost_def)
  show ?thesis
    using end_to_end[of stubHost 0, OF p a] p by (simp add: numeral_2_eq_2)
qed


text \<open>
  Claim C2 as stated fails: without the mapping no variable \<^verbatim>\<open>n\<close> exists, the text node
  ends with the status \<^verbatim>\<open>error\<close>, and the variable \<^verbatim>\<open>result\<close> is never written.
\<close>

theorem end_to_end_unmapped:
  "(case run 2 stubHost (newEngine [triggerN5, generateText] [triggerToGenerate]) of
      Some (Return _ st) \<Rightarrow>
        statuses st = [(''trigger'', Some StatusSuccess), (''generate'', Some StatusError)] \<and>
        \<not> hasOwn (own (variables st)) ''result'' \<and>
        map (errorMessage \<circ> node_data) (nodes st) =
          [None, Some (''Variable '' @ quoted ''n'' @ '' not found. Available: '')]
    | _ \<Rightarrow> False)"
  by code_simp

text \<open>
  Claim C3, as amended. A lookup of a name that the store does not hold fails with the
  error whose message carries the name looked up and the names the store holds, in the
  order \<^verbatim>\<open>Object.keys\<close> lists them (array indices first, then the order of creation),
  provided \<^verbatim>\<open>hasOwnProperty\<close> of the store is the built-in method. This holds of the lookup
  of a bare reference, whose name is the reference without braces and spaces around it,
  and of the lookup the template resolver makes for a placeholder.
\<close>

theorem lookup_absent:
  "hasOwnProperty_callable vars \<Longrightarrow>
     (\<not> hasOwn (own vars) (stripBraces ref) \<longrightarrow>
        resolveVariableValue vars ref =
          Inl (Error (''Variable '' @ quoted (stripBraces ref) @ '' not found. Available: '' @
                      intersperse '', '' (map fst (own vars))))) \<and>
     (\<not> hasOwn (own vars) name \<longrightarrow>
        substitute h vars name =
          Inl (Error (''Variable '' @ quoted name @ '' not found. Available: '' @
                      intersperse '', '' (map fst (own vars)))))"
  by (simp add: resolveVariableValue_def substitute_def variableNotFound_def)

theorem lookup_absent_witness:
  "hasOwnProperty_callable storeBA \<and> \<not> hasOwn (own storeBA) (stripBraces ''{{ c }}'') \<and>
   resolveVariableValue storeBA ''{{ c }}'' =
     Inl (Error (''Variable '' @ quoted ''c'' @ '' not found. Available: b, a'')) \<and>
   substitute stubHost storeBA ''c'' =
     Inl (Error (''Variable '' @ quoted ''c'' @ '' not found. Available: b, a''))"
proof -
  have 1: "hasOwnProperty_callable storeBA" by code_simp
  have 2: "\<not> hasOwn (own storeBA) (stripBraces ''{{ c }}'')" by code_simp
  have 3: "stripBraces ''{{ c }}'' = ''c''" by code_simp
  have 4: "map fst (own storeBA) = [''b'', ''a'']" by code_simp
  show ?thesis
    using lookup_absent[OF 1, of "''{{ c }}''" "''c''" stubHost] 1 2 by (simp add: 3 4)
qed

text \<open>
  Claim C3 as stated fails: in the store that received \<^verbatim>\<open>b\<close> before \<^verbatim>\<open>a\<close>, the lookup of
  \<^verbatim>\<open>c\<close> fails with the names in the order \<^verbatim>\<open>b, a\<close>, which is not the sorted list.
\<close>

theorem lookup_not_sorted:
  "resolveVariableValue storeBA ''c'' =
     Inl (Error (''Variable '' @ quoted ''c'' @ '' not found. Available: b, a'')) \<and>
   sort (map fst (own storeBA)) = [''a'', ''b''] \<and>
   resolveVariableValue storeBA ''c'' \<noteq>
     Inl (Error (''Variable '' @ quoted ''c'' @ '' not found. Available: '' @
                 intersperse '', '' (sort (map fst (own storeBA)))))"
  by code_simp


text \<open>
  Claim C4 fails on the store that holds a variable of the name \<^verbatim>\<open>hasOwnProperty\<close>, as a
  node with that output variable leaves it: the placeholder \<^verbatim>\<open>{{a}}\<close> names a variable the
  store does not hold, and the resolution fails with a \<^verbatim>\<open>TypeError\<close> that names no variable.
\<close>

theorem resolveVariables_shadowed:
  "variables (storeOutput stubHost shadowingNode (JStr ''x'') (newEngine [] [])) = shadowedStore \<and>
   \<not> hasOwn (own shadowedStore) ''a'' \<and>
   resolveVariables stubHost shadowedStore (Some ''{{a}}'') =
     Inl (TypeError ''this.variables.hasOwnProperty is not a function'')"
  by code_simp

text \<open>
  Claim C5. A string that contains no placeholder is resolved to itself, whatever the
  store holds; an undefined or empty text is resolved to the empty string.
\<close>

theorem resolveVariables_identity:
  "(\<not> containsPlaceholder s \<longrightarrow> resolveVariables h vars (Some s) = Inr s) \<and>
   resolveVariables h vars None = Inr [] \<and>
   resolveVariables h vars (Some []) = Inr []"
  by (auto simp: resolveVariables_def containsPlaceholder_iff replacePlaceholders_none)

theorem resolveVariables_identity_witness:
  "\<not> containsPlaceholder ''{{a b}} costs {5}'' \<and>
   resolveVariables stubHost storeBA (Some ''{{a b}} costs {5}'') = Inr ''{{a b}} costs {5}''"
proof -
  have "\<not> occursPlaceholder ''{{a b}} costs {5}''"
    by code_simp
  then have "\<not> containsPlaceholder ''{{a b}} costs {5}''"
    by (simp add: containsPlaceholder_iff)
  then show ?thesis
    using resolveVariables_identity[of "''{{a b}} costs {5}''" stubHost storeBA] by simp
qed

text \<open>
  Claim C6. The sanitizer gives the redaction marker for every string that begins with
  \<^verbatim>\<open>data:\<close>, however long; for any other string of more than 50000 characters, its first
  50000 characters and the truncation marker; and any other string unchanged.
\<close>

theorem getSafeContext_strings:
  "(getSafeContext h (JStr (''data:'' @ r)) = ''[Image Data URL - Content Omitted from Text Context]'') \<and>
   (\<not> startsWith s ''data:'' \<and> 50000 < length s \<longrightarrow>
      getSafeContext h (JStr s) = take 50000 s @ ''... [Truncated]'') \<and>
   (\<not> startsWith s ''data:'' \<and> length s \<le> 50000 \<longrightarrow> getSafeContext h (JStr s) = s)"
  by (simp add: getSafeContext_def startsWith_def)

theorem getSafeContext_strings_witness:
  "getSafeContext stubHost (JStr (''data:'' @ replicate 60000 CHR ''A'')) =
     ''[Image Data URL - Content Omitted from Text Context]'' \<and>
   getSafeContext stubHost (JStr (replicate 50001 CHR ''a'')) =
     replicate 50000 CHR ''a'' @ ''... [Truncated]'' \<and>
   getSafeContext stubHost (JStr ''hello'') = ''hello''"
proof -
  have "replicate 5 CHR ''a'' = ''aaaaa''"
    by code_simp
  then have n: "\<not> startsWith (replicate 50001 CHR ''a'') ''data:''"
    by (simp add: startsWith_def)
  have m: "\<not> startsWith ''hello'' ''data:''"
    by (simp add: startsWith_def)
  show ?thesis
    using getSafeContext_strings[of stubHost "replicate 60000 CHR ''A''" "replicate 50001 CHR ''a''"]
      getSafeContext_strings[of stubHost "[]" "''hello''"] n m
    by simp
qed



text \<open>
  Claim C8, as amended. The extraction is stated for an output on which \<^verbatim>\<open>hasOwnProperty\<close>
  is the built-in method. A node without mappings changes nothing. If the output is not
  an object, one warning is logged. If it is an object (an array is one), the mappings are
  taken in order: a mapping with an empty field or an empty variable is passed over in
  silence; for any other, the field name without the white space around it is looked up
  on the output, and the assignment \<^verbatim>\<open>this.variables[name] = value\<close> is made with its value
  and the trimmed name of the variable, or, if the output lacks the field, a warning is
  logged. For every name of a variable but \<^verbatim>\<open>__proto__\<close>, the variable holds the value of
  the field once the last mapping has written it; what the assignment to \<^verbatim>\<open>__proto__\<close>
  leaves is not part of the statement.
\<close>

theorem output_extraction:
  assumes "valueMethodCallable out"
  shows "extractMappings h n out st =
           Return () (case outputMappings (node_data n) of
                        None \<Rightarrow> st
                      | Some ms \<Rightarrow>
                          if ms = [] then st
                          else if typeof_object out \<and> out \<noteq> JNull then foldl (mappingStep h out) st ms
                          else log h ''Warning: Output Mappings ignored because output is not an object.'' st) \<and>
         (om_field m \<noteq> [] \<and> om_variable m \<noteq> [] \<and> valueHasOwn out (trim (om_field m)) \<and>
          trim (om_variable m) \<noteq> ''__proto__'' \<longrightarrow>
            getOwn (own (variables (foldl (mappingStep h out) st (ms @ [m])))) (trim (om_variable m)) =
              valueGet out (trim (om_field m)))"
  using assms
  by (auto simp: extractMappings_def applyMappings_foldl assign_get mappingStep_def split: option.splits)

theorem output_extraction_witness:
  "valueMethodCallable resultXY \<and>
   extractMappings stubHost (mappingNode [\<lparr> om_field = ''x'', om_variable = ''n'' \<rparr>]) resultXY
       (newEngine [] []) =
     Return () (foldl (mappingStep stubHost resultXY) (newEngine [] [])
                  [\<lparr> om_field = ''x'', om_variable = ''n'' \<rparr>]) \<and>
   variables (foldl (mappingStep stubHost resultXY) (newEngine [] [])
                  [\<lparr> om_field = ''x'', om_variable = ''n'' \<rparr>]) =
     \<lparr> own = [(''n'', JNum 1)], proto = ObjectPrototype \<rparr>"
proof -
  have c: "valueMethodCallable resultXY"
    by code_simp
  have v: "variables (foldl (mappingStep stubHost resultXY) (newEngine [] [])
                  [\<lparr> om_field = ''x'', om_variable = ''n'' \<rparr>]) =
     \<lparr> own = [(''n'', JNum 1)], proto = ObjectPrototype \<rparr>"
    by code_simp
  have o: "outputMappings (node_data (mappingNode ms)) = Some ms" for ms
    by (simp add: mappingNode_def emptyData_def)
  have t: "typeof_object resultXY \<and> resultXY \<noteq> JNull"
    by (simp add: resultXY_def)
  from output_extraction[OF c, of stubHost "mappingNode [\<lparr> om_field = ''x'', om_variable = ''n'' \<rparr>]"
        "newEngine [] []"]
  have "extractMappings stubHost (mappingNode [\<lparr> om_field = ''x'', om_variable = ''n'' \<rparr>]) resultXY
       (newEngine [] []) =
     Return () (foldl (mappingStep stubHost resultXY) (newEngine [] [])
                  [\<lparr> om_field = ''x'', om_variable = ''n'' \<rparr>])"
    by (simp add: o t)
  with c v show ?thesis
    by simp
qed

text \<open>
  Claim C8 as stated fails. The result \<^verbatim>\<open>{x: 1, y: 2}\<close> has no field of the empty name,
  and the mapping of that field is passed over with no warning: the engine is unchanged.
  It has no field \<^verbatim>\<open>" x"\<close> either, and the mapping of that field writes the value of \<^verbatim>\<open>x\<close>.
\<close>

theorem output_extraction_guard:
  "\<not> valueHasOwn resultXY [] \<and>
   extractMappings stubHost (mappingNode [\<lparr> om_field = [], om_variable = ''n'' \<rparr>]) resultXY
       (newEngine [] []) = Return () (newEngine [] []) \<and>
   \<not> valueHasOwn resultXY '' x'' \<and>
   variables (final (extractMappings stubHost (mappingNode [\<lparr> om_field = '' x'', om_variable = ''n'' \<rparr>])
       resultXY (newEngine [] []))) = \<lparr> own = [(''n'', JNum 1)], proto = ObjectPrototype \<rparr>"
  by code_simp



text \<open>
  Claim C10 fails for the form-data trigger whose payload has a field of the key
  \<^verbatim>\<open>hasOwnProperty\<close>: its output is written to the variable \<^verbatim>\<open>trigger_data\<close>, then the
  mapping calls \<^verbatim>\<open>outputData.hasOwnProperty\<close>, which is the field and no function. The node
  ends with the status \<^verbatim>\<open>error\<close>, and the store, empty when the node started, holds the
  variable.
\<close>

theorem error_after_write:
  "(case run 1 stubHost (newEngine [formTrigger] []) of
      Some (Return _ st) \<Rightarrow>
        statuses st = [(''trigger'', Some StatusError)] \<and>
        map (errorMessage \<circ> node_data) (nodes st) = [Some ''outputData.hasOwnProperty is not a function''] \<and>
        own (variables st) = [(''trigger_data'', JObj [(''hasOwnProperty'', JStr ''1'')])]
    | _ \<Rightarrow> False)"
  by code_simp



section \<open>Further properties\<close>

text \<open>
  When \<^verbatim>\<open>hasOwnProperty\<close> of the store is the built-in method, a text with a placeholder
  whose variable the store does not hold is not resolved: the resolution fails with the
  error that names the first such variable and lists the names the store holds.
\<close>

theorem unresolved_placeholder:
  "hasOwnProperty_callable vars \<Longrightarrow>
   find (\<lambda>n. \<not> hasOwn (own vars) n) (placeholderNames t) = Some n \<Longrightarrow>
     resolveVariables h vars (Some t) =
       Inl (Error (''Variable '' @ quoted n @ '' not found. Available: '' @
                   intersperse '', '' (map fst (own vars))))"
  using unresolved_placeholder_fails[of vars t n h] by (simp add: variableNotFound_def)

theorem unresolved_placeholder_witness:
  "hasOwnProperty_callable storeBA \<and>
   find (\<lambda>n. \<not> hasOwn (own storeBA) n) (placeholderNames ''{{a}} and {{ c }} and {{d}}'') = Some ''c'' \<and>
   resolveVariables stubHost storeBA (Some ''{{a}} and {{ c }} and {{d}}'') =
     Inl (Error (''Variable '' @ quoted ''c'' @ '' not found. Available: b, a''))"
proof -
  have 1: "hasOwnProperty_callable storeBA"
    by code_simp
  have 2: "find (\<lambda>n. \<not> hasOwn (own storeBA) n) (placeholderNames ''{{a}} and {{ c }} and {{d}}'') = Some ''c''"
    by code_simp
  have 3: "map fst (own storeBA) = [''b'', ''a'']"
    by code_simp
  show ?thesis
    using unresolved_placeholder[OF 1 2, of stubHost] 1 2 by (simp add: 3)
qed

text \<open>
  A node whose resolution, dispatch or extraction throws anything but the \<^verbatim>\<open>TypeError\<close> of
  a shadowed \<^verbatim>\<open>outputData.hasOwnProperty\<close> ends with the store as it was when the node
  started.
\<close>

theorem failed_node_keeps_variables:
  "processNode h n inp (enterNode h n st) = Throw e s \<Longrightarrow>
   e \<noteq> notAFunction ''outputData.hasOwnProperty'' \<Longrightarrow>
     executeNode (Suc k) h n inp st = Some (Return () (catchError h n e s)) \<and>
     variables (catchError h n e s) = variables st"
  using processNode_atomic[of h n inp "enterNode h n st" e s] by simp

theorem failed_node_keeps_variables_witness:
  "processNode failingHost nodeA JNull (enterNode failingHost nodeA forkGraph) =
     Throw (Error ''quota exceeded'') (enterNode failingHost nodeA forkGraph) \<and>
   Error ''quota exceeded'' \<noteq> notAFunction ''outputData.hasOwnProperty'' \<and>
   variables (catchError failingHost nodeA (Error ''quota exceeded'')
                (enterNode failingHost nodeA forkGraph)) = variables forkGraph"
proof -
  have 1: "processNode failingHost nodeA JNull (enterNode failingHost nodeA forkGraph) =
     Throw (Error ''quota exceeded'') (enterNode failingHost nodeA forkGraph)"
    by code_simp
  have 2: "Error ''quota exceeded'' \<noteq> notAFunction ''outputData.hasOwnProperty''"
    by (simp add: notAFunction_def)
  show ?thesis
    using failed_node_keeps_variables[OF 1 2, of 0] 1 2 by simp
qed

text \<open>
  A value assigned to a variable of any name but \<^verbatim>\<open>__proto__\<close> is the value the store
  then holds under that name.
\<close>

theorem assigned_variable_is_held:
  "k \<noteq> ''__proto__'' \<Longrightarrow>
     hasOwn (own (assign k v vars)) k \<and> getOwn (own (assign k v vars)) k = v"
  by (rule assign_get)

theorem assigned_variable_is_held_witness:
  "''n'' \<noteq> ''__proto__'' \<and> hasOwn (own (assign ''n'' (JNum 1) storeBA)) ''n'' \<and>
   getOwn (own (assign ''n'' (JNum 1) storeBA)) ''n'' = JNum 1"
proof -
  have 1: "''n'' \<noteq> ''__proto__''"
    by simp
  show ?thesis
    using assigned_variable_is_held[OF 1, of "JNum 1" storeBA] by simp
qed

end
